theory Spec2Isabelle
  imports Complex_Main "HOL-Library.List_Lexorder" "HOL-Library.Char_ord"
    "HOL-Library.Product_Lexorder"
begin

section \<open>Data model\<close>

text \<open>
  The result sheet is a table with one row per student and subject. A cell of a mark
  column holds a number, a text, or nothing; the marks are modelled by exact rationals.
  The key columns (department, branch, semester, registration number, subject code and
  grade) hold a value in every row: blank key cells are outside this model. The grade of
  a result row is one of the seven of the scale; the program does not check it, so the
  grade is a text here and a statement that needs a grade of the scale says so.
\<close>

datatype cell = Num rat | Text string | NaN

record row =
  DEPNAME :: string
  BRNAME :: string
  SEM :: int
  REGNO :: int
  SUBCODE :: string
  SUBTYPE :: string
  SESMARK :: cell
  ESEM :: cell
  TOTMARK :: cell
  GRADE :: string

text \<open>
  A frame is the list of its rows together with the computed boolean column
  \<open>Pass\<close>, which is absent until one of the functions assigns it.
\<close>

record frame =
  rows :: "row list"
  Pass :: "bool list option"

section \<open>Grouping\<close>

text \<open>
  \<open>groupby\<close> of the table library: the distinct keys in ascending order, each with
  the members of its group in their original order.
\<close>

definition group_keys :: "('a \<Rightarrow> 'k::linorder) \<Rightarrow> 'a list \<Rightarrow> 'k list" where
  "group_keys key xs = sort (remdups (map key xs))"

definition groupby :: "('a \<Rightarrow> 'k::linorder) \<Rightarrow> 'a list \<Rightarrow> ('k \<times> 'a list) list" where
  "groupby key xs = map (\<lambda>k. (k, filter (\<lambda>x. key x = k) xs)) (group_keys key xs)"

definition size_of_groups :: "('k \<times> 'a list) list \<Rightarrow> ('k \<times> int) list" where
  "size_of_groups gs = map (\<lambda>(k, g). (k, int (length g))) gs"

section \<open>Pass/fail per student\<close>

definition grade_passes :: "row \<Rightarrow> bool" where
  "grade_passes r = (GRADE r \<noteq> ''U'')"

definition status_label :: "bool \<Rightarrow> string" where
  "status_label p = (if p then ''Pass'' else ''Fail'')"

text \<open>
  \<open>determine_pass_fail\<close> assigns the column \<open>Pass\<close> of its argument and returns,
  per registration number, the conjunction of the column and its label. The result is
  the pair of the frame as the call leaves it and the table returned.
\<close>

definition determine_pass_fail :: "frame \<Rightarrow> frame \<times> (int \<times> bool \<times> string) list" where
  "determine_pass_fail df =
     (let pass = map grade_passes (rows df);
          df1 = df\<lparr>Pass := Some pass\<rparr>;
          student_pass_fail =
            map (\<lambda>(k, g). (k, list_all snd g)) (groupby (REGNO \<circ> fst) (zip (rows df1) pass))
      in (df1, map (\<lambda>(k, p). (k, p, status_label p)) student_pass_fail))"

section \<open>Grade distribution per subject\<close>

definition grade_order :: "string list" where
  "grade_order = [''O'', ''A+'', ''A'', ''B+'', ''B'', ''C'', ''U'']"

text \<open>The distinct values of a column in the order of their first appearance.\<close>

primrec unique :: "'a list \<Rightarrow> 'a list" where
  "unique [] = []"
| "unique (x # xs) = x # filter (\<lambda>y. y \<noteq> x) (unique xs)"

text \<open>
  Reindexing a keyed series against a list of labels: the value of a label the series
  has, the fill value for a label it lacks; labels of the series outside the list go.
\<close>

definition reindex :: "('k \<times> 'v) list \<Rightarrow> 'k list \<Rightarrow> 'v \<Rightarrow> ('k \<times> 'v) list" where
  "reindex s labels fill =
     map (\<lambda>k. (k, case map_of s k of Some v \<Rightarrow> v | None \<Rightarrow> fill)) labels"

definition grade_distribution_per_subject ::
  "frame \<Rightarrow> frame \<times> ((string \<times> string) \<times> int) list" where
  "grade_distribution_per_subject df =
     (let subjects = unique (map SUBCODE (rows df));
          all_combinations = List.product subjects grade_order;
          subject_grade_counts =
            reindex (size_of_groups (groupby (\<lambda>r. (SUBCODE r, GRADE r)) (rows df)))
              all_combinations 0
      in (df, subject_grade_counts))"

section \<open>Subjects failed per student\<close>

text \<open>
  \<open>value_counts\<close>: each distinct value with the number of its occurrences, the most
  frequent first; values of equal frequency stay in the order of their first appearance.
\<close>

definition value_counts :: "'a list \<Rightarrow> ('a \<times> int) list" where
  "value_counts xs =
     sort_key (\<lambda>(v, c). - c) (map (\<lambda>v. (v, int (count_list xs v))) (unique xs))"

definition subjects_failed :: "frame \<Rightarrow> frame \<times> (int \<times> int) list" where
  "subjects_failed df =
     (let failed = filter (\<lambda>r. GRADE r = ''U'') (rows df);
          per_student = size_of_groups (groupby REGNO failed);
          fail_counts = value_counts (map snd per_student)
      in (df, fail_counts))"

section \<open>Average marks per subject\<close>

text \<open>
  Numeric coercion of a cell: a number stays, a text becomes the number it parses to and
  a missing value when it does not parse. The parser of texts belongs to the table
  library and is a parameter here.
\<close>

definition to_numeric :: "(string \<Rightarrow> rat option) \<Rightarrow> cell \<Rightarrow> cell" where
  "to_numeric parse c =
     (case c of
        Num v \<Rightarrow> Num v
      | Text t \<Rightarrow> (case parse t of Some v \<Rightarrow> Num v | None \<Rightarrow> NaN)
      | NaN \<Rightarrow> NaN)"

primrec numbers :: "cell list \<Rightarrow> rat list" where
  "numbers [] = []"
| "numbers (c # cs) = (case c of Num v \<Rightarrow> v # numbers cs | _ \<Rightarrow> numbers cs)"

text \<open>The mean of a column skips missing values and is missing when nothing is left.\<close>

definition mean :: "cell list \<Rightarrow> cell" where
  "mean cs =
     (if numbers cs = [] then NaN
      else Num (sum_list (numbers cs) / of_nat (length (numbers cs))))"

definition coerce_marks :: "(string \<Rightarrow> rat option) \<Rightarrow> row \<Rightarrow> row" where
  "coerce_marks parse r =
     r\<lparr>SESMARK := to_numeric parse (SESMARK r),
       ESEM := to_numeric parse (ESEM r),
       TOTMARK := to_numeric parse (TOTMARK r)\<rparr>"

definition avg_marks_per_subject ::
  "(string \<Rightarrow> rat option) \<Rightarrow> frame \<Rightarrow> frame \<times> (string \<times> cell \<times> cell \<times> cell) list" where
  "avg_marks_per_subject parse df =
     (let df1 = df\<lparr>rows := map (coerce_marks parse) (rows df)\<rparr>;
          subject_avg =
            map (\<lambda>(k, g). (k, mean (map SESMARK g), mean (map ESEM g), mean (map TOTMARK g)))
              (groupby SUBCODE (rows df1))
      in (df1, subject_avg))"

section \<open>Pass/fail counts per subject\<close>

datatype error = ValueError

text \<open>
  Unstacking a series keyed by pairs: one row per first component, one column per second
  component that occurs anywhere in the series, both ascending; a missing combination
  gets the fill value.
\<close>

definition unstack ::
  "(('a::linorder \<times> 'b::linorder) \<times> int) list \<Rightarrow> int \<Rightarrow> 'b list \<times> ('a \<times> int list) list" where
  "unstack s fill =
     (let cols = sort (remdups (map (snd \<circ> fst) s));
          idx = sort (remdups (map (fst \<circ> fst) s))
      in (cols,
          map (\<lambda>i. (i, map (\<lambda>c. case map_of s (i, c) of Some v \<Rightarrow> v | None \<Rightarrow> fill) cols))
            idx))"

text \<open>
  \<open>subject_wise_pass_fail\<close> names the three columns of the unstacked table
  \<open>SUBJECT CODE\<close>, \<open>Fail\<close>, \<open>Pass\<close>; the assignment of the names raises when the
  table does not have three columns. A returned row is (subject code, Fail, Pass).
\<close>

definition subject_wise_pass_fail ::
  "frame \<Rightarrow> frame \<times> (error + (string \<times> int \<times> int) list)" where
  "subject_wise_pass_fail df =
     (let pass = map grade_passes (rows df);
          df1 = df\<lparr>Pass := Some pass\<rparr>;
          (cols, body) =
            unstack (size_of_groups
                       (groupby (\<lambda>(r, p). (SUBCODE r, p)) (zip (rows df1) pass))) 0
      in (df1,
          if Suc (length cols) \<noteq> 3 then Inl ValueError
          else Inr (map (\<lambda>(k, vs). (k, vs ! 0, vs ! 1)) body)))"

section \<open>Pass/fail counts per department\<close>

definition DEPT_ABBREVIATIONS :: "string \<rightharpoonup> string" where
  "DEPT_ABBREVIATIONS = map_of
     [(''AEROSPACE ENGINEERING'', ''AERO''),
      (''AUTOMOBILE ENGINEERING'', ''AUTO''),
      (''ELECTRONICS ENGINEERING'', ''ECE''),
      (''INFORMATION TECHNOLOGY'', ''IT''),
      (''INSTRUMENTATION ENGINEERING'', ''E&I''),
      (''PRODUCTION TECHNOLOGY'', ''PT''),
      (''RUBBER AND PLASTICS TECHNOLOGY'', ''RPT'')]"

text \<open>
  The left join of the student table with the (registration number, department) pairs:
  a student row once per pair of its registration number, and once with a missing
  department when there is none.
\<close>

definition merge_left ::
  "(int \<times> bool \<times> string) list \<Rightarrow> (int \<times> string) list \<Rightarrow>
     (int \<times> bool \<times> string \<times> string option) list" where
  "merge_left left right =
     concat (map (\<lambda>(k, p, st).
        (case filter (\<lambda>(k', d). k' = k) right of
           [] \<Rightarrow> [(k, p, st, None)]
         | ms \<Rightarrow> map (\<lambda>(k', d). (k, p, st, Some d)) ms)) left)"

text \<open>Mapping a column through a dictionary: a missing value and an unknown key give a missing value.\<close>

definition map_dict :: "('k \<rightharpoonup> 'v) \<Rightarrow> 'k option \<Rightarrow> 'v option" where
  "map_dict m x = (case x of None \<Rightarrow> None | Some k \<Rightarrow> m k)"

text \<open>Grouping drops the rows whose key is missing.\<close>

primrec dropna :: "('k option \<times> 'a) list \<Rightarrow> ('k \<times> 'a) list" where
  "dropna [] = []"
| "dropna (x # xs) = (case fst x of None \<Rightarrow> dropna xs | Some k \<Rightarrow> (k, snd x) # dropna xs)"

definition reindex_columns ::
  "'b list \<times> ('a \<times> int list) list \<Rightarrow> 'b list \<Rightarrow> int \<Rightarrow> 'b list \<times> ('a \<times> int list) list" where
  "reindex_columns t labels fill =
     (labels,
      map (\<lambda>(i, vs). (i, map (\<lambda>c. case map_of (zip (fst t) vs) c of Some v \<Rightarrow> v | None \<Rightarrow> fill)
                            labels))
        (snd t))"

text \<open>
  The rows that \<open>department_wise_pass_fail\<close> groups: per student and department of
  the student, the short code of the department (missing when the dictionary has none)
  and the status of the student.
\<close>

definition department_status :: "row list \<Rightarrow> bool list \<Rightarrow> (string option \<times> string) list" where
  "department_status rs pass =
     (let student_pass_fail =
            map (\<lambda>(k, p). (k, p, status_label p))
              (map (\<lambda>(k, g). (k, list_all snd g)) (groupby (REGNO \<circ> fst) (zip rs pass)));
          df_unique = unique (map (\<lambda>r. (REGNO r, DEPNAME r)) rs);
          merged = merge_left student_pass_fail df_unique
      in map (\<lambda>(k, p, st, d). (map_dict DEPT_ABBREVIATIONS d, st)) merged)"

text \<open>
  The table returned has the column labels first and then one row per department code
  with the values of the columns in the order of the labels.
\<close>

definition department_wise_pass_fail ::
  "frame \<Rightarrow> frame \<times> (string list \<times> (string \<times> int list) list)" where
  "department_wise_pass_fail df =
     (let pass = map grade_passes (rows df);
          df1 = df\<lparr>Pass := Some pass\<rparr>;
          department_pass_fail =
            unstack (size_of_groups
                       (groupby (\<lambda>x. x) (dropna (department_status (rows df1) pass)))) 0
      in (df1, reindex_columns department_pass_fail [''Pass'', ''Fail''] 0))"

section \<open>Loading\<close>

text \<open>
  Reading the sheet is the table library's work: it raises with a message, or gives the
  names of the columns found and the rows. The rows carry the cells of the ten
  required columns, which is what the program keeps of a sheet that has them all.
\<close>

datatype read_result = ReadFailure string | Sheet "string list" "row list"

datatype message = Error string | Warning string

definition required_cols :: "string list" where
  "required_cols =
     [''DEPNAME'', ''BRNAME'', ''SEM'', ''REGNO'', ''SUBCODE'', ''SUBTYPE'',
      ''SESMARK'', ''ESEM'', ''TOTMARK'', ''GRADE'']"

text \<open>\<open>load_data\<close> returns the messages it shows and the frame, if any.\<close>

definition load_data :: "read_result \<Rightarrow> message list \<times> frame option" where
  "load_data payload =
     (case payload of
        ReadFailure e \<Rightarrow> ([Error (''Error loading file: '' @ e)], None)
      | Sheet columns rs \<Rightarrow>
          if \<not> list_all (\<lambda>col. col \<in> set columns) required_cols
          then ([Error ''Excel file is missing required columns!''], None)
          else ([], Some \<lparr>rows = rs, Pass = None\<rparr>))"

section \<open>Selection of rows\<close>

definition DEPT_PREFIX :: "(string \<times> string) list" where
  "DEPT_PREFIX =
     [(''Aerospace'', ''AE''), (''Automobile'', ''AU''), (''Electronics Comm'', ''EC''),
      (''Artificial Intelligence'', ''AZ''), (''Information Tech'', ''IT''),
      (''Inst Eng'', ''EI''), (''Mech'', ''ME''), (''Production'', ''PR''),
      (''Robotics'', ''RO''), (''Rubber and Plastics'', ''RP'')]"

definition extra_subjects :: "(string \<times> string list) list" where
  "extra_subjects =
     [(''Aeronautical'', [''HM5503'', ''EC5797'', ''PR5791'', ''EC5796'', ''RP5591'', ''EI5791'',
         ''AU5791'', ''ME5796'', ''IT5794'']),
      (''Automobile'', [''GE5552'', ''IT5794'', ''GE5451'', ''ITM503'', ''ITM505'', ''EC5796'',
         ''EC5797'', ''PR5791'', ''RP5591'', ''AE5795'', ''ME5796'']),
      (''ECE'', [''HU5176'', ''IT5794'', ''MG5451'', ''PH5202'', ''EI5791'', ''HU5172'', ''HU5171'',
         ''ME5796'', ''HU5173'', ''PR5791'', ''HU5177'', ''AU5791'', ''AE5795'', ''HU5174'',
         ''RP5591'']),
      (''AI'', [''HU5173'', ''HU5176'', ''HU5171'', ''HU5172'', ''HU5177'']),
      (''IT'', [''HU5174'', ''HU5177'', ''HU5172'', ''HU5173'', ''HU5176'', ''HU5171'', ''EC5797'',
         ''EC5796'', ''AE5795'', ''AU5791'', ''EI5791'', ''ME5796'', ''PR5791'', ''RP5591'']),
      (''EI'', [''HM5501'', ''ME5796'', ''RP5591'', ''EC5796'', ''EC5797'', ''IT5794'', ''PR5791'',
         ''AE5795'']),
      (''Mech'', [''ITM503'', ''ITM505'', ''AU5791'', ''AE5795'', ''GE5152'', ''MA5252'']),
      (''Production'', [''GE5551'', ''HS5151'', ''ITM503'', ''ITM505'', ''EEM504'', ''EEM503'',
         ''EI5791'', ''EC5796'', ''IT5794'', ''AE5795'']),
      (''Robo'', [''EE5402'', ''ITM503'', ''ITM505'', ''MA5158'']),
      (''Rubber'', [''HU5171'', ''HU5176'', ''HU5172'', ''ITM503'', ''ITM505'', ''HU5177'',
         ''HU5174'', ''GE5451'', ''ME5796'', ''EC5797'', ''AE5795'', ''AU5791'', ''EC5796''])]"

definition startswith :: "string \<Rightarrow> string list \<Rightarrow> bool" where
  "startswith s prefixes = list_ex (\<lambda>p. take (length p) s = p) prefixes"

text \<open>The semester selector offers \<open>Overall\<close>, \<open>5\<close> and \<open>7\<close>.\<close>

datatype semester = Overall | Sem5 | Sem7

primrec semester_label :: "semester \<Rightarrow> string" where
  "semester_label Overall = ''Overall''"
| "semester_label Sem5 = ''5''"
| "semester_label Sem7 = ''7''"

primrec semester_int :: "semester \<Rightarrow> int option" where
  "semester_int Overall = None"
| "semester_int Sem5 = Some 5"
| "semester_int Sem7 = Some 7"

definition filter_rows :: "row list \<Rightarrow> string \<Rightarrow> string \<Rightarrow> semester \<Rightarrow> row list" where
  "filter_rows df selected_department selected_branch selected_semester =
     (let by_department =
            (if selected_department = ''Others (Open Elective)'' then
               (let all_prefixes = map snd DEPT_PREFIX;
                    df_others = filter (\<lambda>r. \<not> startswith (SUBCODE r) all_prefixes) df;
                    subject_list =
                      sort (remdups (sort (unique (map SUBCODE df_others))
                                     @ concat (map snd extra_subjects)));
                    df_extra = filter (\<lambda>r. SUBCODE r \<in> set subject_list) df
                in unique (df_others @ df_extra))
             else if selected_department \<noteq> ''Overall'' then
               (let of_department = filter (\<lambda>r. DEPNAME r = selected_department) df
                in if selected_branch \<noteq> ''All''
                   then filter (\<lambda>r. BRNAME r = selected_branch) of_department
                   else of_department)
             else df)
      in case semester_int selected_semester of
           None \<Rightarrow> by_department
         | Some n \<Rightarrow> filter (\<lambda>r. SEM r = n) by_department)"

section \<open>The render cycle\<close>

record derived =
  pass_fail_df :: "(int \<times> bool \<times> string) list"
  subjects_failed_df :: "(int \<times> int) list"
  department_pass_fail :: "string list \<times> (string \<times> int list) list"
  subject_pass_fail :: "(string \<times> int \<times> int) list"
  subject_avg :: "(string \<times> cell \<times> cell \<times> cell) list"
  subject_grade_counts :: "((string \<times> string) \<times> int) list"

text \<open>
  The six aggregations in the order of the program, each on the frame as the one before
  left it. An exception of \<open>subject_wise_pass_fail\<close> ends the sequence.
\<close>

definition aggregate :: "(string \<Rightarrow> rat option) \<Rightarrow> frame \<Rightarrow> error + derived" where
  "aggregate parse filtered_df =
     (let (df1, t1) = determine_pass_fail filtered_df;
          (df2, t2) = subjects_failed df1;
          (df3, t3) = department_wise_pass_fail df2;
          (df4, r4) = subject_wise_pass_fail df3
      in case r4 of
           Inl e \<Rightarrow> Inl e
         | Inr t4 \<Rightarrow>
             (let (df5, t5) = avg_marks_per_subject parse df4;
                  (df6, t6) = grade_distribution_per_subject df5
              in Inr \<lparr>pass_fail_df = t1, subjects_failed_df = t2, department_pass_fail = t3,
                       subject_pass_fail = t4, subject_avg = t5, subject_grade_counts = t6\<rparr>))"

text \<open>
  What a render cycle ends in: nothing was uploaded; the script was stopped after the
  loader's messages; the selection was empty and a warning shown; an aggregation raised;
  or the derived tables were computed.
\<close>

datatype outcome =
    Idle
  | Stopped "message list"
  | NoData "message list"
  | Raised error
  | Computed derived

text \<open>
  A branch can be chosen for a department only; otherwise the branch is \<open>All\<close>.
\<close>

definition branch_of :: "string \<Rightarrow> string \<Rightarrow> string" where
  "branch_of selected_department branch_choice =
     (if selected_department \<notin> set [''Overall'', ''Others (Open Elective)'']
      then branch_choice else ''All'')"

definition main ::
  "(string \<Rightarrow> rat option) \<Rightarrow> read_result option \<Rightarrow> string \<Rightarrow> string \<Rightarrow> semester \<Rightarrow> outcome" where
  "main parse uploaded_file selected_department branch_choice selected_semester =
     (case uploaded_file of
        None \<Rightarrow> Idle
      | Some payload \<Rightarrow>
          (case load_data payload of
             (shown, None) \<Rightarrow> Stopped shown
           | (shown, Some df) \<Rightarrow>
               (let selected_branch = branch_of selected_department branch_choice;
                    filtered_df =
                      filter_rows (rows df) selected_department selected_branch selected_semester
                in if filtered_df = []
                   then NoData (shown @
                          [Warning (''No data available for '' @ selected_department @ '' - ''
                                    @ selected_branch @ '' in Semester ''
                                    @ semester_label selected_semester)])
                   else (case aggregate parse \<lparr>rows = filtered_df, Pass = None\<rparr> of
                           Inl e \<Rightarrow> Raised e
                         | Inr tables \<Rightarrow> Computed tables))))"

primrec messages :: "outcome \<Rightarrow> message list" where
  "messages Idle = []"
| "messages (Stopped ms) = ms"
| "messages (NoData ms) = ms"
| "messages (Raised e) = []"
| "messages (Computed t) = []"

primrec tables :: "outcome \<Rightarrow> derived option" where
  "tables Idle = None"
| "tables (Stopped ms) = None"
| "tables (NoData ms) = None"
| "tables (Raised e) = None"
| "tables (Computed t) = Some t"

section \<open>Sample data\<close>

definition result_row :: "string \<Rightarrow> int \<Rightarrow> string \<Rightarrow> string \<Rightarrow> cell \<Rightarrow> row" where
  "result_row d k s g m =
     \<lparr>DEPNAME = d, BRNAME = ''B.TECH'', SEM = 5, REGNO = k, SUBCODE = s, SUBTYPE = ''THEORY'',
      SESMARK = m, ESEM = m, TOTMARK = m, GRADE = g\<rparr>"

text \<open>
  Student 1 took two subjects and failed the second, where the marks are a text; student 2,
  of a department without abbreviation, passed the one subject taken.
\<close>

definition sample :: frame where
  "sample =
     \<lparr>rows =
        [result_row ''INFORMATION TECHNOLOGY'' 1 ''AE101'' ''O'' (Num 40),
         result_row ''INFORMATION TECHNOLOGY'' 1 ''AE102'' ''U'' (Text ''AB''),
         result_row ''MECHANICAL ENGINEERING'' 2 ''AE101'' ''A'' (Num 30)],
      Pass = None\<rparr>"

text \<open>One student, one subject, passed.\<close>

definition all_passed :: frame where
  "all_passed = \<lparr>rows = [result_row ''INFORMATION TECHNOLOGY'' 1 ''AE101'' ''O'' (Num 40)], Pass = None\<rparr>"

text \<open>One row whose grade, \<open>AB\<close>, is none of the seven of the scale.\<close>

definition off_scale :: frame where
  "off_scale = \<lparr>rows = [result_row ''INFORMATION TECHNOLOGY'' 1 ''AE101'' ''AB'' NaN], Pass = None\<rparr>"

text \<open>Three students in one subject; the marks of the second are a text.\<close>

definition mixed_marks :: frame where
  "mixed_marks =
     \<lparr>rows =
        [result_row ''INFORMATION TECHNOLOGY'' 1 ''AE101'' ''O'' (Num 40),
         result_row ''INFORMATION TECHNOLOGY'' 2 ''AE101'' ''U'' (Text ''AB''),
         result_row ''INFORMATION TECHNOLOGY'' 3 ''AE101'' ''A'' (Num 30)],
      Pass = None\<rparr>"

text \<open>A parser that takes no text for a number, as every parser does with \<open>AB\<close>.\<close>

definition parse_nothing :: "string \<Rightarrow> rat option" where
  "parse_nothing t = None"

section \<open>Notions used in the statements\<close>

definition rows_of_subject :: "frame \<Rightarrow> string \<Rightarrow> row list" where
  "rows_of_subject df s = filter (\<lambda>r. SUBCODE r = s) (rows df)"

definition counts_of_subject :: "((string \<times> string) \<times> int) list \<Rightarrow> string \<Rightarrow> int list" where
  "counts_of_subject t s = map snd (filter (\<lambda>x. fst (fst x) = s) t)"

text \<open>
  The numbers that the cells of a column stand for: a number for itself, a text for the
  number it parses to; a text that does not parse and a missing value for none.
\<close>

definition numeric_value :: "(string \<Rightarrow> rat option) \<Rightarrow> cell \<Rightarrow> rat option" where
  "numeric_value parse c = (case c of Num v \<Rightarrow> Some v | Text t \<Rightarrow> parse t | NaN \<Rightarrow> None)"

definition parseable_values :: "(string \<Rightarrow> rat option) \<Rightarrow> cell list \<Rightarrow> rat list" where
  "parseable_values parse cs = List.map_filter (numeric_value parse) cs"

text \<open>The mean of a list of numbers, missing for the empty list.\<close>

definition average :: "rat list \<Rightarrow> cell" where
  "average vs = (if vs = [] then NaN else Num (sum_list vs / of_nat (length vs)))"

text \<open>The number of the rows with grade \<open>U\<close> of a student.\<close>

definition failures :: "frame \<Rightarrow> int \<Rightarrow> int" where
  "failures df k =
     int (length (filter (\<lambda>r. REGNO r = k) (filter (\<lambda>r. GRADE r = ''U'') (rows df))))"

text \<open>The columns of a row other than the three mark columns.\<close>

definition without_marks ::
  "row \<Rightarrow> string \<times> string \<times> int \<times> int \<times> string \<times> string \<times> string" where
  "without_marks r = (DEPNAME r, BRNAME r, SEM r, REGNO r, SUBCODE r, SUBTYPE r, GRADE r)"

definition grouped_students :: "frame \<Rightarrow> (string \<times> string) list" where
  "grouped_students df = dropna (department_status (rows df) (map grade_passes (rows df)))"

section \<open>Facts about grouping\<close>

lemma set_group_keys: "set (group_keys key xs) = key ` set xs"
  by (simp add: group_keys_def)

lemma distinct_group_keys: "distinct (group_keys key xs)"
  by (simp add: group_keys_def)

lemma map_fst_groupby: "map fst (groupby key xs) = group_keys key xs"
  by (simp add: groupby_def comp_def)

lemma zip_map_self: "zip xs (map f xs) = map (\<lambda>x. (x, f x)) xs"
  by (induction xs) simp_all

lemma all_of_tagged_group:
  "list_all snd (filter (\<lambda>x. key (fst x) = k) (map (\<lambda>x. (x, f x)) xs)) =
     list_all f (filter (\<lambda>x. key x = k) xs)"
  by (induction xs) simp_all

section \<open>Pass/fail per student: the status table\<close>

lemma student_table:
  "snd (determine_pass_fail df) =
     map (\<lambda>k. (k, list_all grade_passes (filter (\<lambda>r. REGNO r = k) (rows df)),
                 status_label (list_all grade_passes (filter (\<lambda>r. REGNO r = k) (rows df)))))
       (group_keys REGNO (rows df))"
  by (simp add: determine_pass_fail_def Let_def groupby_def zip_map_self group_keys_def
      comp_def all_of_tagged_group)

text \<open>
  C1. The status table has exactly one entry per registration number that has a row, and
  none for any other; an entry is labelled \<open>Fail\<close> iff some row of the student has
  grade \<open>U\<close>, and \<open>Pass\<close> iff every row of the student has a grade other than \<open>U\<close>.
\<close>

theorem determine_pass_fail_status:
  "distinct (map fst (snd (determine_pass_fail df))) \<and>
   fst ` set (snd (determine_pass_fail df)) = REGNO ` set (rows df) \<and>
   (\<forall>(k, p, st) \<in> set (snd (determine_pass_fail df)).
      (st = ''Fail'' \<longleftrightarrow> (\<exists>r \<in> set (rows df). REGNO r = k \<and> GRADE r = ''U'')) \<and>
      (st = ''Pass'' \<longleftrightarrow> (\<forall>r \<in> set (rows df). REGNO r = k \<longrightarrow> GRADE r \<noteq> ''U'')))"
proof (intro conjI)
  show "distinct (map fst (snd (determine_pass_fail df)))"
    by (simp add: student_table comp_def distinct_group_keys)
  show "fst ` set (snd (determine_pass_fail df)) = REGNO ` set (rows df)"
    by (simp add: student_table image_image set_group_keys)
  show "\<forall>(k, p, st) \<in> set (snd (determine_pass_fail df)).
      (st = ''Fail'' \<longleftrightarrow> (\<exists>r \<in> set (rows df). REGNO r = k \<and> GRADE r = ''U'')) \<and>
      (st = ''Pass'' \<longleftrightarrow> (\<forall>r \<in> set (rows df). REGNO r = k \<longrightarrow> GRADE r \<noteq> ''U''))"
    by (auto simp: student_table status_label_def grade_passes_def list_all_iff)
qed

theorem determine_pass_fail_status_witness:
  "snd (determine_pass_fail sample) = [(1, False, ''Fail''), (2, True, ''Pass'')] \<and>
   (\<exists>r \<in> set (rows sample). REGNO r = 1 \<and> GRADE r = ''U'') \<and>
   \<not> (\<exists>r \<in> set (rows sample). REGNO r = 2 \<and> GRADE r = ''U'')"
proof -
  have table: "snd (determine_pass_fail sample) = [(1, False, ''Fail''), (2, True, ''Pass'')]"
    by (simp add: determine_pass_fail_def groupby_def group_keys_def sample_def result_row_def
        grade_passes_def status_label_def)
  from determine_pass_fail_status [of sample] show ?thesis
    unfolding table by simp
qed

section \<open>What a call leaves of its argument\<close>

lemma determine_pass_fail_frame:
  "fst (determine_pass_fail df) = df\<lparr>Pass := Some (map grade_passes (rows df))\<rparr>"
  by (simp add: determine_pass_fail_def Let_def)

lemma subject_wise_frame:
  "fst (subject_wise_pass_fail df) = df\<lparr>Pass := Some (map grade_passes (rows df))\<rparr>"
  by (simp add: subject_wise_pass_fail_def Let_def split_beta)

lemma department_wise_frame:
  "fst (department_wise_pass_fail df) = df\<lparr>Pass := Some (map grade_passes (rows df))\<rparr>"
  by (simp add: department_wise_pass_fail_def Let_def)

lemma avg_marks_frame:
  "fst (avg_marks_per_subject parse df) = df\<lparr>rows := map (coerce_marks parse) (rows df)\<rparr>"
  by (simp add: avg_marks_per_subject_def Let_def)

lemma without_marks_coerce: "without_marks (coerce_marks parse r) = without_marks r"
  by (simp add: without_marks_def coerce_marks_def)

lemma pass_column_unread:
  "snd (determine_pass_fail (df\<lparr>Pass := c\<rparr>)) = snd (determine_pass_fail df)"
  "snd (grade_distribution_per_subject (df\<lparr>Pass := c\<rparr>)) = snd (grade_distribution_per_subject df)"
  "snd (subjects_failed (df\<lparr>Pass := c\<rparr>)) = snd (subjects_failed df)"
  "snd (avg_marks_per_subject parse (df\<lparr>Pass := c\<rparr>)) = snd (avg_marks_per_subject parse df)"
  "snd (subject_wise_pass_fail (df\<lparr>Pass := c\<rparr>)) = snd (subject_wise_pass_fail df)"
  "snd (department_wise_pass_fail (df\<lparr>Pass := c\<rparr>)) = snd (department_wise_pass_fail df)"
  by (simp_all add: determine_pass_fail_def grade_distribution_per_subject_def subjects_failed_def
      avg_marks_per_subject_def subject_wise_pass_fail_def department_wise_pass_fail_def Let_def
      split_beta)

lemma to_numeric_twice: "to_numeric parse (to_numeric parse c) = to_numeric parse c"
  by (simp add: to_numeric_def split: cell.splits option.splits)

lemma coerce_marks_twice: "coerce_marks parse (coerce_marks parse r) = coerce_marks parse r"
  by (simp add: coerce_marks_def to_numeric_twice)

text \<open>
  C9, in the form that holds. A call changes its argument in two ways only. \<open>determine_pass_fail\<close>,
  \<open>subject_wise_pass_fail\<close> and \<open>department_wise_pass_fail\<close> assign the column
  \<open>Pass\<close> and keep every row; \<open>grade_distribution_per_subject\<close> and
  \<open>subjects_failed\<close> change nothing; \<open>avg_marks_per_subject\<close> keeps the column
  \<open>Pass\<close> and every column other than the three mark columns, and replaces each mark by
  its numeric coercion, which keeps a number and a missing value as they are. No table
  returned depends on the column \<open>Pass\<close> of the argument, so each function is right
  without an earlier call of another.
\<close>

theorem aggregation_frame_effect:
  "rows (fst (determine_pass_fail df)) = rows df \<and>
   rows (fst (subject_wise_pass_fail df)) = rows df \<and>
   rows (fst (department_wise_pass_fail df)) = rows df \<and>
   fst (grade_distribution_per_subject df) = df \<and>
   fst (subjects_failed df) = df \<and>
   Pass (fst (avg_marks_per_subject parse df)) = Pass df \<and>
   map without_marks (rows (fst (avg_marks_per_subject parse df))) = map without_marks (rows df) \<and>
   map SESMARK (rows (fst (avg_marks_per_subject parse df))) =
     map (to_numeric parse \<circ> SESMARK) (rows df) \<and>
   map ESEM (rows (fst (avg_marks_per_subject parse df))) =
     map (to_numeric parse \<circ> ESEM) (rows df) \<and>
   map TOTMARK (rows (fst (avg_marks_per_subject parse df))) =
     map (to_numeric parse \<circ> TOTMARK) (rows df) \<and>
   to_numeric parse (Num v) = Num v \<and>
   to_numeric parse NaN = NaN \<and>
   snd (determine_pass_fail (df\<lparr>Pass := c\<rparr>)) = snd (determine_pass_fail df) \<and>
   snd (grade_distribution_per_subject (df\<lparr>Pass := c\<rparr>)) =
     snd (grade_distribution_per_subject df) \<and>
   snd (subjects_failed (df\<lparr>Pass := c\<rparr>)) = snd (subjects_failed df) \<and>
   snd (avg_marks_per_subject parse (df\<lparr>Pass := c\<rparr>)) = snd (avg_marks_per_subject parse df) \<and>
   snd (subject_wise_pass_fail (df\<lparr>Pass := c\<rparr>)) = snd (subject_wise_pass_fail df) \<and>
   snd (department_wise_pass_fail (df\<lparr>Pass := c\<rparr>)) = snd (department_wise_pass_fail df)"
proof -
  have marks: "map without_marks (rows (fst (avg_marks_per_subject parse df))) =
      map without_marks (rows df)"
    "map SESMARK (rows (fst (avg_marks_per_subject parse df))) =
      map (to_numeric parse \<circ> SESMARK) (rows df)"
    "map ESEM (rows (fst (avg_marks_per_subject parse df))) =
      map (to_numeric parse \<circ> ESEM) (rows df)"
    "map TOTMARK (rows (fst (avg_marks_per_subject parse df))) =
      map (to_numeric parse \<circ> TOTMARK) (rows df)"
    by (simp_all add: avg_marks_frame comp_def without_marks_def coerce_marks_def)
  have unread: "fst (grade_distribution_per_subject df) = df" "fst (subjects_failed df) = df"
    by (simp_all add: grade_distribution_per_subject_def subjects_failed_def Let_def)
  have coerced: "to_numeric parse (Num v) = Num v" "to_numeric parse NaN = NaN"
    by (simp_all add: to_numeric_def)
  have kept: "rows (fst (determine_pass_fail df)) = rows df"
    "rows (fst (subject_wise_pass_fail df)) = rows df"
    "rows (fst (department_wise_pass_fail df)) = rows df"
    "Pass (fst (avg_marks_per_subject parse df)) = Pass df"
    by (simp_all add: determine_pass_fail_frame subject_wise_frame department_wise_frame
        avg_marks_frame)
  show ?thesis
    by (intro conjI) (simp_all only: marks unread coerced kept pass_column_unread)
qed

text \<open>
  The mark columns do not stay as they were: on the sample, the internal mark \<open>AB\<close> of
  the second row is a missing value after \<open>avg_marks_per_subject\<close>.
\<close>

theorem avg_marks_overwrites_marks:
  "map SESMARK (rows sample) = [Num 40, Text ''AB'', Num 30] \<and>
   map SESMARK (rows (fst (avg_marks_per_subject parse_nothing sample))) = [Num 40, NaN, Num 30]"
  by (simp add: avg_marks_per_subject_def sample_def result_row_def coerce_marks_def
      to_numeric_def parse_nothing_def)

section \<open>Calling twice\<close>

text \<open>
  C8. For each of the six aggregations, a second call on the frame as the first call
  left it returns the table the first call returned.
\<close>

theorem aggregation_twice:
  "snd (determine_pass_fail (fst (determine_pass_fail df))) = snd (determine_pass_fail df) \<and>
   snd (grade_distribution_per_subject (fst (grade_distribution_per_subject df))) =
     snd (grade_distribution_per_subject df) \<and>
   snd (subjects_failed (fst (subjects_failed df))) = snd (subjects_failed df) \<and>
   snd (avg_marks_per_subject parse (fst (avg_marks_per_subject parse df))) =
     snd (avg_marks_per_subject parse df) \<and>
   snd (subject_wise_pass_fail (fst (subject_wise_pass_fail df))) =
     snd (subject_wise_pass_fail df) \<and>
   snd (department_wise_pass_fail (fst (department_wise_pass_fail df))) =
     snd (department_wise_pass_fail df)"
proof (intro conjI)
  show "snd (determine_pass_fail (fst (determine_pass_fail df))) = snd (determine_pass_fail df)"
    by (simp add: determine_pass_fail_frame pass_column_unread)
  show "snd (grade_distribution_per_subject (fst (grade_distribution_per_subject df))) =
      snd (grade_distribution_per_subject df)"
    by (simp add: grade_distribution_per_subject_def Let_def)
  show "snd (subjects_failed (fst (subjects_failed df))) = snd (subjects_failed df)"
    by (simp add: subjects_failed_def Let_def)
  show "snd (avg_marks_per_subject parse (fst (avg_marks_per_subject parse df))) =
      snd (avg_marks_per_subject parse df)"
    by (simp add: avg_marks_per_subject_def Let_def comp_def coerce_marks_twice)
  show "snd (subject_wise_pass_fail (fst (subject_wise_pass_fail df))) =
      snd (subject_wise_pass_fail df)"
    by (simp add: subject_wise_frame pass_column_unread)
  show "snd (department_wise_pass_fail (fst (department_wise_pass_fail df))) =
      snd (department_wise_pass_fail df)"
    by (simp add: department_wise_frame pass_column_unread)
qed

section \<open>A render cycle without data\<close>

text \<open>
  C6. When reading the sheet fails, or a required column is missing, the cycle is
  stopped with the loader's message, which names the failure; when the selection of rows
  is empty, the cycle shows a warning that names the selected department, branch and
  semester. In the three cases no aggregation is run, and derived tables exist only after
  a successful load and a selection that is not empty.
\<close>

theorem render_cycle_halts:
  "main parse (Some (ReadFailure e)) d b s = Stopped [Error (''Error loading file: '' @ e)] \<and>
   (\<not> list_all (\<lambda>col. col \<in> set cols) required_cols \<longrightarrow>
      main parse (Some (Sheet cols rs)) d b s =
        Stopped [Error ''Excel file is missing required columns!'']) \<and>
   (list_all (\<lambda>col. col \<in> set cols) required_cols \<and> filter_rows rs d (branch_of d b) s = [] \<longrightarrow>
      main parse (Some (Sheet cols rs)) d b s =
        NoData [Warning (''No data available for '' @ d @ '' - '' @ branch_of d b
                         @ '' in Semester '' @ semester_label s)]) \<and>
   (tables (main parse u d b s) \<noteq> None \<longrightarrow>
      (\<exists>cols rs. u = Some (Sheet cols rs) \<and> list_all (\<lambda>col. col \<in> set cols) required_cols \<and>
         filter_rows rs d (branch_of d b) s \<noteq> []))"
proof (intro conjI impI)
  show "main parse (Some (ReadFailure e)) d b s = Stopped [Error (''Error loading file: '' @ e)]"
    by (simp add: main_def load_data_def)
  show "main parse (Some (Sheet cols rs)) d b s =
      Stopped [Error ''Excel file is missing required columns!'']"
    if "\<not> list_all (\<lambda>col. col \<in> set cols) required_cols"
    using that by (simp add: main_def load_data_def)
  show "main parse (Some (Sheet cols rs)) d b s =
      NoData [Warning (''No data available for '' @ d @ '' - '' @ branch_of d b
                       @ '' in Semester '' @ semester_label s)]"
    if "list_all (\<lambda>col. col \<in> set cols) required_cols \<and> filter_rows rs d (branch_of d b) s = []"
    using that by (simp add: main_def load_data_def Let_def)
  show "\<exists>cols rs. u = Some (Sheet cols rs) \<and> list_all (\<lambda>col. col \<in> set cols) required_cols \<and>
         filter_rows rs d (branch_of d b) s \<noteq> []"
    if "tables (main parse u d b s) \<noteq> None"
    using that
    by (auto simp: main_def load_data_def Let_def
        split: option.splits read_result.splits if_splits sum.splits)
qed

theorem render_cycle_halts_witness:
  "main parse_nothing (Some (Sheet [''REGNO'', ''GRADE''] (rows sample))) ''Overall'' ''All'' Sem7 =
     Stopped [Error ''Excel file is missing required columns!''] \<and>
   main parse_nothing (Some (Sheet required_cols (rows sample))) ''Overall'' ''All'' Sem7 =
     NoData [Warning ''No data available for Overall - All in Semester 7''] \<and>
   tables (main parse_nothing (Some (Sheet required_cols (rows sample))) ''Overall'' ''All'' Sem5)
     \<noteq> None"
proof -
  have missing: "\<not> list_all (\<lambda>col. col \<in> set [''REGNO'', ''GRADE'']) required_cols"
    by (simp add: required_cols_def)
  have present: "list_all (\<lambda>col. col \<in> set required_cols) required_cols"
    by (simp add: list_all_iff)
  have none: "filter_rows (rows sample) ''Overall'' (branch_of ''Overall'' ''All'') Sem7 = []"
    by (simp add: filter_rows_def sample_def result_row_def)
  have some: "tables (main parse_nothing (Some (Sheet required_cols (rows sample))) ''Overall'' ''All'' Sem5)
     \<noteq> None"
    by code_simp
  from render_cycle_halts [of parse_nothing "[]" "''Overall''" "''All''" Sem7
      "[''REGNO'', ''GRADE'']" "rows sample"] missing
    render_cycle_halts [of parse_nothing "[]" "''Overall''" "''All''" Sem7
      required_cols "rows sample"] present none some
  show ?thesis by (simp add: branch_of_def)
qed

section \<open>Pass/fail counts per subject when no row failed\<close>

text \<open>
  C3. On a subset in which no row failed, \<open>subject_wise_pass_fail\<close> raises: the
  unstacked table has the column of the passes only, and three names are assigned to its
  two columns. The subject does not appear with a zero.
\<close>

theorem subject_wise_pass_fail_all_passed:
  "snd (subject_wise_pass_fail all_passed) = Inl ValueError"
  by (simp add: subject_wise_pass_fail_def all_passed_def result_row_def grade_passes_def
      unstack_def size_of_groups_def groupby_def group_keys_def)

section \<open>Grade distribution: a dense table\<close>

lemma map_of_tabulate:
  "map_of (map (\<lambda>k. (k, f k)) ks) k = (if k \<in> set ks then Some (f k) else None)"
  by (induction ks) auto

lemma size_of_groups_groupby:
  "size_of_groups (groupby key xs) =
     map (\<lambda>k. (k, int (length (filter (\<lambda>x. key x = k) xs)))) (group_keys key xs)"
  by (simp add: size_of_groups_def groupby_def)

lemma group_size_or_zero:
  "(case map_of (size_of_groups (groupby key xs)) k of Some v \<Rightarrow> v | None \<Rightarrow> 0) =
     int (length (filter (\<lambda>x. key x = k) xs))"
proof (cases "k \<in> key ` set xs")
  case True
  then show ?thesis
    by (simp add: size_of_groups_groupby map_of_tabulate set_group_keys)
next
  case False
  then have "filter (\<lambda>x. key x = k) xs = []"
    by (auto simp: filter_empty_conv)
  with False show ?thesis
    by (simp add: size_of_groups_groupby map_of_tabulate set_group_keys)
qed

lemma set_unique: "set (unique xs) = set xs"
  by (induction xs) auto

lemma distinct_unique: "distinct (unique xs)"
  by (induction xs) (auto simp: set_unique)

lemma length_unique: "length (unique xs) = card (set xs)"
  using distinct_card [OF distinct_unique, of xs] by (simp add: set_unique)

lemma grade_table:
  "snd (grade_distribution_per_subject df) =
     map (\<lambda>k. (k, int (length (filter (\<lambda>r. (SUBCODE r, GRADE r) = k) (rows df)))))
       (List.product (unique (map SUBCODE (rows df))) grade_order)"
  by (simp add: grade_distribution_per_subject_def Let_def reindex_def group_size_or_zero)

lemma counts_of_subject_product:
  "distinct xs \<Longrightarrow>
   counts_of_subject (map (\<lambda>k. (k, f k)) (List.product xs ys)) s =
     (if s \<in> set xs then map (\<lambda>g. f (s, g)) ys else [])"
proof (induction xs)
  case Nil
  then show ?case by (simp add: counts_of_subject_def)
next
  case (Cons x xs)
  have here: "filter (\<lambda>x. fst (fst x) = s) (map (\<lambda>g. ((x, g), f (x, g))) ys) =
      (if x = s then map (\<lambda>g. ((x, g), f (x, g))) ys else [])"
    by (induction ys) auto
  from Cons show ?case
    by (auto simp: counts_of_subject_def here comp_def)
qed

lemma length_filter_either:
  "\<forall>x \<in> set xs. \<not> (A x \<and> B x) \<Longrightarrow>
   length (filter (\<lambda>x. A x \<or> B x) xs) = length (filter A xs) + length (filter B xs)"
  by (induction xs) auto

lemma sum_over_values:
  "distinct ys \<Longrightarrow>
   (\<Sum>g\<leftarrow>ys. int (length (filter (\<lambda>x. h x = g) xs))) =
     int (length (filter (\<lambda>x. h x \<in> set ys) xs))"
proof (induction ys)
  case Nil
  then show ?case by simp
next
  case (Cons y ys)
  have "length (filter (\<lambda>x. h x = y \<or> h x \<in> set ys) xs) =
      length (filter (\<lambda>x. h x = y) xs) + length (filter (\<lambda>x. h x \<in> set ys) xs)"
    using Cons.prems by (intro length_filter_either) auto
  with Cons show ?case by simp
qed

lemma distinct_grade_order: "distinct grade_order"
  by (simp add: grade_order_def)

lemma sum_counts_of_subject:
  assumes "s \<in> SUBCODE ` set (rows df)"
  shows "sum_list (counts_of_subject (snd (grade_distribution_per_subject df)) s) =
     int (length (filter (\<lambda>r. GRADE r \<in> set grade_order) (rows_of_subject df s)))"
proof -
  have "counts_of_subject (snd (grade_distribution_per_subject df)) s =
      map (\<lambda>g. int (length (filter (\<lambda>r. (SUBCODE r, GRADE r) = (s, g)) (rows df)))) grade_order"
    using assms by (simp add: grade_table counts_of_subject_product distinct_unique set_unique)
  also have "\<dots> = map (\<lambda>g. int (length (filter (\<lambda>r. GRADE r = g) (rows_of_subject df s))))
      grade_order"
    by (simp add: rows_of_subject_def conj_commute)
  finally show ?thesis
    by (simp add: sum_over_values [OF distinct_grade_order] comp_def)
qed

text \<open>
  For every frame: the table has seven rows per distinct subject code, one for each pair
  of a subject code of the subset and a grade of the scale, every count is at least 0, and
  the seven counts of a subject add up to the number of its rows whose grade is one of
  the seven.
\<close>

lemma grade_distribution_counts:
  "length (snd (grade_distribution_per_subject df)) = card (SUBCODE ` set (rows df)) * 7 \<and>
   distinct (map fst (snd (grade_distribution_per_subject df))) \<and>
   fst ` set (snd (grade_distribution_per_subject df)) =
     SUBCODE ` set (rows df) \<times> set grade_order \<and>
   (\<forall>(k, c) \<in> set (snd (grade_distribution_per_subject df)). 0 \<le> c) \<and>
   (\<forall>s \<in> SUBCODE ` set (rows df).
      sum_list (counts_of_subject (snd (grade_distribution_per_subject df)) s) =
        int (length (filter (\<lambda>r. GRADE r \<in> set grade_order) (rows_of_subject df s)))) \<and>
   (\<forall>s \<in> SUBCODE ` set (rows df).
      (\<forall>r \<in> set (rows_of_subject df s). GRADE r \<in> set grade_order) \<longrightarrow>
      sum_list (counts_of_subject (snd (grade_distribution_per_subject df)) s) =
        int (length (rows_of_subject df s)))"
proof (intro conjI ballI impI)
  show "length (snd (grade_distribution_per_subject df)) = card (SUBCODE ` set (rows df)) * 7"
    by (simp add: grade_table length_unique) (simp add: grade_order_def)
  show "distinct (map fst (snd (grade_distribution_per_subject df)))"
    by (simp add: grade_table comp_def distinct_product distinct_unique distinct_grade_order)
  show "fst ` set (snd (grade_distribution_per_subject df)) =
      SUBCODE ` set (rows df) \<times> set grade_order"
    by (simp add: grade_table image_image set_unique)
  show "case x of (k, c) \<Rightarrow> 0 \<le> c" if "x \<in> set (snd (grade_distribution_per_subject df))" for x
    using that by (auto simp: grade_table)
  show "sum_list (counts_of_subject (snd (grade_distribution_per_subject df)) s) =
      int (length (filter (\<lambda>r. GRADE r \<in> set grade_order) (rows_of_subject df s)))"
    if "s \<in> SUBCODE ` set (rows df)" for s
    using that by (rule sum_counts_of_subject)
  show "sum_list (counts_of_subject (snd (grade_distribution_per_subject df)) s) =
      int (length (rows_of_subject df s))"
    if "s \<in> SUBCODE ` set (rows df)"
      and "\<forall>r \<in> set (rows_of_subject df s). GRADE r \<in> set grade_order" for s
  proof -
    from that(2) have "filter (\<lambda>r. GRADE r \<in> set grade_order) (rows_of_subject df s) =
        rows_of_subject df s"
      by (simp add: filter_id_conv)
    with sum_counts_of_subject [OF that(1)] show ?thesis by simp
  qed
qed

text \<open>
  A grade outside the scale is no grade of the data model; a row with such a grade would
  be counted nowhere.
\<close>

lemma grade_off_scale_not_counted:
  "sum_list (counts_of_subject (snd (grade_distribution_per_subject off_scale)) ''AE101'') = 0 \<and>
   int (length (rows_of_subject off_scale ''AE101'')) = 1"
  by (simp add: grade_distribution_per_subject_def off_scale_def result_row_def reindex_def
      size_of_groups_def groupby_def group_keys_def grade_order_def counts_of_subject_def
      rows_of_subject_def)

text \<open>
  C2. On a subset of result rows, whose grades are of the seven of the scale, the table
  of \<open>grade_distribution_per_subject\<close> has exactly seven rows per distinct subject
  code, one for each pair of a subject code of the subset and a grade of the scale, every
  count is at least 0, and the seven counts of a subject code add up to the number of the
  rows with that subject code.
\<close>

theorem grade_distribution_per_subject_dense:
  assumes "\<forall>r \<in> set (rows df). GRADE r \<in> set grade_order"
  shows "length (snd (grade_distribution_per_subject df)) = card (SUBCODE ` set (rows df)) * 7 \<and>
   distinct (map fst (snd (grade_distribution_per_subject df))) \<and>
   fst ` set (snd (grade_distribution_per_subject df)) =
     SUBCODE ` set (rows df) \<times> set grade_order \<and>
   (\<forall>(k, c) \<in> set (snd (grade_distribution_per_subject df)). 0 \<le> c) \<and>
   (\<forall>s \<in> SUBCODE ` set (rows df).
      sum_list (counts_of_subject (snd (grade_distribution_per_subject df)) s) =
        int (length (rows_of_subject df s)))"
proof -
  note general = grade_distribution_counts [of df]
  have sums: "sum_list (counts_of_subject (snd (grade_distribution_per_subject df)) s) =
      int (length (rows_of_subject df s))" if "s \<in> SUBCODE ` set (rows df)" for s
  proof -
    have "\<forall>r \<in> set (rows_of_subject df s). GRADE r \<in> set grade_order"
      using assms by (simp add: rows_of_subject_def)
    with general that show ?thesis by blast
  qed
  from general sums show ?thesis by blast
qed

text \<open>
  On the sample, whose grades are \<open>O\<close>, \<open>U\<close> and \<open>A\<close>, the table has 14 rows and
  the counts of the subject \<open>AE101\<close> add up to its two rows.
\<close>

theorem grade_distribution_per_subject_dense_witness:
  "''AE101'' \<in> SUBCODE ` set (rows sample) \<and>
   length (rows_of_subject sample ''AE101'') = 2 \<and>
   length (snd (grade_distribution_per_subject sample)) = 14 \<and>
   sum_list (counts_of_subject (snd (grade_distribution_per_subject sample)) ''AE101'') = 2"
proof -
  have on_scale: "\<forall>r \<in> set (rows sample). GRADE r \<in> set grade_order"
    by (simp add: sample_def result_row_def grade_order_def)
  have subject: "''AE101'' \<in> SUBCODE ` set (rows sample)"
    by (simp add: sample_def result_row_def)
  have subjects: "card (SUBCODE ` set (rows sample)) = 2"
    by (simp add: sample_def result_row_def card_insert_if)
  have counted: "length (rows_of_subject sample ''AE101'') = 2"
    by (simp add: rows_of_subject_def sample_def result_row_def)
  note dense = grade_distribution_per_subject_dense [OF on_scale]
  from dense subject
  have total: "sum_list (counts_of_subject (snd (grade_distribution_per_subject sample)) ''AE101'') =
      int (length (rows_of_subject sample ''AE101''))"
    by blast
  from dense
  have size: "length (snd (grade_distribution_per_subject sample)) =
      card (SUBCODE ` set (rows sample)) * 7"
    by blast
  from total size subject show ?thesis
    by (simp add: subjects counted)
qed

section \<open>Subjects failed: the histogram\<close>

lemma sum_list_insort_key: "sum_list (map g (insort_key f x xs)) = g x + sum_list (map g xs)"
  for g :: "'a \<Rightarrow> int"
  by (induction xs) simp_all

lemma sum_list_sort_key: "sum_list (map g (sort_key f xs)) = sum_list (map g xs)"
  for g :: "'a \<Rightarrow> int"
  by (induction xs) (simp_all add: sum_list_insort_key)

lemma int_sum_list: "(\<Sum>v\<leftarrow>ys. int (f v)) = int (\<Sum>v\<leftarrow>ys. f v)"
  by (induction ys) simp_all

lemma sum_count_list_unique: "(\<Sum>v\<leftarrow>unique xs. int (count_list xs v)) = int (length xs)"
proof -
  have "(\<Sum>v\<leftarrow>unique xs. count_list xs v) = sum (count_list xs) (set xs)"
    using sum_list_distinct_conv_sum_set [OF distinct_unique, of "count_list xs" xs]
    by (simp add: set_unique)
  also have "\<dots> = length xs"
    by (rule sum_count_set) simp_all
  finally show ?thesis
    by (simp add: int_sum_list)
qed

lemma sum_value_counts: "sum_list (map snd (value_counts xs)) = int (length xs)"
  by (simp add: value_counts_def sum_list_sort_key comp_def sum_count_list_unique)

lemma set_value_counts:
  "set (value_counts xs) = (\<lambda>v. (v, int (count_list xs v))) ` set xs"
  by (simp add: value_counts_def set_unique)

lemma distinct_map_insort_key:
  "distinct (map g (insort_key f x xs)) = (g x \<notin> g ` set xs \<and> distinct (map g xs))"
  by (induction xs) (auto simp: set_insort_key)

lemma distinct_map_sort_key: "distinct (map g (sort_key f xs)) = distinct (map g xs)"
  by (induction xs) (simp_all add: distinct_map_insort_key)

lemma distinct_value_counts: "distinct (map fst (value_counts xs))"
  by (simp add: value_counts_def distinct_map_sort_key comp_def distinct_unique)

lemma count_list_map_distinct:
  "distinct ks \<Longrightarrow> count_list (map f ks) n = card {k \<in> set ks. f k = n}"
proof (induction ks)
  case Nil
  then show ?case by simp
next
  case (Cons k ks)
  have split: "{x. (x = k \<or> x \<in> set ks) \<and> f x = n} =
      (if f k = n then insert k {x \<in> set ks. f x = n} else {x \<in> set ks. f x = n})"
    by auto
  from Cons show ?case by (simp add: split)
qed

lemma failures_per_student:
  "map snd (size_of_groups (groupby REGNO (filter (\<lambda>r. GRADE r = ''U'') (rows df)))) =
     map (failures df) (group_keys REGNO (filter (\<lambda>r. GRADE r = ''U'') (rows df)))"
  by (simp add: size_of_groups_groupby comp_def failures_def)

lemma failures_positive:
  "k \<in> REGNO ` {r \<in> set (rows df). GRADE r = ''U''} \<Longrightarrow> 1 \<le> failures df k"
proof -
  assume "k \<in> REGNO ` {r \<in> set (rows df). GRADE r = ''U''}"
  then obtain r where "r \<in> set (filter (\<lambda>r. REGNO r = k) (filter (\<lambda>r. GRADE r = ''U'') (rows df)))"
    by auto
  then have "filter (\<lambda>r. REGNO r = k) (filter (\<lambda>r. GRADE r = ''U'') (rows df)) \<noteq> []"
    by (metis empty_iff empty_set)
  then show ?thesis
    by (simp add: failures_def Suc_le_eq)
qed

text \<open>
  C4. The student counts of the arrear distribution add up to the number of distinct
  registration numbers with at least one row of grade \<open>U\<close>. Each number of failed
  subjects occurs once, is at least 1, so that there is no entry for zero failures, and
  its student count is the number of the students who failed exactly that many rows.
\<close>

theorem subjects_failed_histogram:
  "sum_list (map snd (snd (subjects_failed df))) =
     int (card (REGNO ` {r \<in> set (rows df). GRADE r = ''U''})) \<and>
   distinct (map fst (snd (subjects_failed df))) \<and>
   (\<forall>(n, c) \<in> set (snd (subjects_failed df)).
      1 \<le> n \<and> 1 \<le> c \<and>
      c = int (card {k \<in> REGNO ` {r \<in> set (rows df). GRADE r = ''U''}. failures df k = n}))"
proof (intro conjI ballI)
  let ?failed = "filter (\<lambda>r. GRADE r = ''U'') (rows df)"
  let ?ks = "group_keys REGNO ?failed"
  have table: "snd (subjects_failed df) = value_counts (map (failures df) ?ks)"
    by (simp add: subjects_failed_def Let_def failures_per_student)
  have students: "set ?ks = REGNO ` {r \<in> set (rows df). GRADE r = ''U''}"
    by (simp add: set_group_keys)
  have "length ?ks = card (set ?ks)"
    using distinct_card [OF distinct_group_keys, of REGNO ?failed] by simp
  then show "sum_list (map snd (snd (subjects_failed df))) =
      int (card (REGNO ` {r \<in> set (rows df). GRADE r = ''U''}))"
    by (simp add: table sum_value_counts students)
  show "distinct (map fst (snd (subjects_failed df)))"
    by (simp add: table distinct_value_counts)
  fix x assume "x \<in> set (snd (subjects_failed df))"
  then obtain k where k: "k \<in> set ?ks"
    and x: "x = (failures df k, int (count_list (map (failures df) ?ks) (failures df k)))"
    by (auto simp: table set_value_counts)
  have n: "1 \<le> failures df k"
    using k failures_positive [of k df] by (simp add: students)
  have c: "count_list (map (failures df) ?ks) (failures df k) =
      card {j \<in> set ?ks. failures df j = failures df k}"
    by (rule count_list_map_distinct) (rule distinct_group_keys)
  have "k \<in> {j \<in> set ?ks. failures df j = failures df k}"
    using k by simp
  moreover have "finite {j \<in> set ?ks. failures df j = failures df k}"
    by simp
  ultimately have "1 \<le> card {j \<in> set ?ks. failures df j = failures df k}"
    by (metis One_nat_def Suc_leI card_gt_0_iff empty_iff)
  with n c show "case x of (n, c) \<Rightarrow> 1 \<le> n \<and> 1 \<le> c \<and>
      c = int (card {k \<in> REGNO ` {r \<in> set (rows df). GRADE r = ''U''}. failures df k = n})"
    by (simp add: x students)
qed

text \<open>
  On the sample one student failed one subject.
\<close>

theorem subjects_failed_histogram_witness:
  "snd (subjects_failed sample) = [(1, 1)] \<and>
   card (REGNO ` {r \<in> set (rows sample). GRADE r = ''U''}) = 1"
proof -
  have table: "snd (subjects_failed sample) = [(1, 1)]"
    by (simp add: subjects_failed_def sample_def result_row_def size_of_groups_def groupby_def
        group_keys_def value_counts_def)
  from subjects_failed_histogram [of sample] show ?thesis
    unfolding table by simp
qed

section \<open>Average marks: the values averaged\<close>

lemma numbers_to_numeric: "numbers (map (to_numeric parse) cs) = parseable_values parse cs"
  by (induction cs)
    (simp_all add: parseable_values_def map_filter_simps to_numeric_def numeric_value_def
      split: cell.splits option.splits)

lemma mean_to_numeric: "mean (map (to_numeric parse) cs) = average (parseable_values parse cs)"
  by (simp add: mean_def average_def numbers_to_numeric)

lemma mean_coerced:
  "mean (map (to_numeric parse \<circ> f) g) = average (parseable_values parse (map f g))"
  using mean_to_numeric [of parse "map f g"] by simp

lemma group_keys_coerced:
  "group_keys SUBCODE (map (coerce_marks parse) rs) = group_keys SUBCODE rs"
  by (simp add: group_keys_def comp_def coerce_marks_def)

lemma subject_of_coerced:
  "filter (\<lambda>r. SUBCODE r = k) (map (coerce_marks parse) rs) =
     map (coerce_marks parse) (filter (\<lambda>r. SUBCODE r = k) rs)"
  by (simp add: filter_map comp_def coerce_marks_def)

lemma avg_table:
  "snd (avg_marks_per_subject parse df) =
     map (\<lambda>k. (k, average (parseable_values parse (map SESMARK (rows_of_subject df k))),
                 average (parseable_values parse (map ESEM (rows_of_subject df k))),
                 average (parseable_values parse (map TOTMARK (rows_of_subject df k)))))
       (group_keys SUBCODE (rows df))"
proof -
  have marks: "map (\<lambda>r. SESMARK (coerce_marks parse r)) g = map (to_numeric parse) (map SESMARK g)"
    "map (\<lambda>r. ESEM (coerce_marks parse r)) g = map (to_numeric parse) (map ESEM g)"
    "map (\<lambda>r. TOTMARK (coerce_marks parse r)) g = map (to_numeric parse) (map TOTMARK g)" for g
    by (simp_all add: coerce_marks_def)
  show ?thesis
    by (simp add: avg_marks_per_subject_def Let_def groupby_def group_keys_coerced
        subject_of_coerced comp_def)
      (simp add: marks mean_coerced rows_of_subject_def)
qed

text \<open>
  C7. The table of averages has one row per subject code of the subset, and each of
  its three means is the mean of the numbers that the cells of the subject's rows stand
  for: a cell that is no number and does not parse to one is left out of the sum and of
  the count, and the mean is missing when no cell is left. The function returns for every
  frame.
\<close>

theorem avg_marks_over_parseable:
  "map fst (snd (avg_marks_per_subject parse df)) = group_keys SUBCODE (rows df) \<and>
   (\<forall>(s, i, e, t) \<in> set (snd (avg_marks_per_subject parse df)).
      i = average (parseable_values parse (map SESMARK (rows_of_subject df s))) \<and>
      e = average (parseable_values parse (map ESEM (rows_of_subject df s))) \<and>
      t = average (parseable_values parse (map TOTMARK (rows_of_subject df s))))"
  by (auto simp: avg_table comp_def)

text \<open>
  With the marks 40, \<open>AB\<close> and 30 the mean is 35.
\<close>

theorem avg_marks_over_parseable_witness:
  "snd (avg_marks_per_subject parse_nothing mixed_marks) = [(''AE101'', Num 35, Num 35, Num 35)] \<and>
   parseable_values parse_nothing (map SESMARK (rows_of_subject mixed_marks ''AE101'')) = [40, 30] \<and>
   average (parseable_values parse_nothing (map SESMARK (rows_of_subject mixed_marks ''AE101'')))
     = Num 35"
proof -
  have table: "snd (avg_marks_per_subject parse_nothing mixed_marks) =
      [(''AE101'', Num 35, Num 35, Num 35)]"
    by (simp add: avg_marks_per_subject_def mixed_marks_def result_row_def groupby_def
        group_keys_def coerce_marks_def to_numeric_def parse_nothing_def mean_def)
  have parsed: "parseable_values parse_nothing (map SESMARK (rows_of_subject mixed_marks ''AE101''))
      = [40, 30]"
    by (simp add: parseable_values_def numeric_value_def parse_nothing_def
        rows_of_subject_def mixed_marks_def result_row_def)
  from avg_marks_over_parseable [of parse_nothing mixed_marks] table parsed show ?thesis
    by simp
qed

section \<open>Pass/fail counts per department: both columns\<close>

lemma count_as_length: "int (length (filter (\<lambda>x. x = k) xs)) = int (count_list xs k)"
  by (induction xs) simp_all

lemma unstack_sizes:
  "unstack (size_of_groups (groupby (\<lambda>x. x) xs)) 0 =
     (sort (remdups (map snd (group_keys (\<lambda>x. x) xs))),
      map (\<lambda>i. (i, map (\<lambda>c. int (count_list xs (i, c)))
                     (sort (remdups (map snd (group_keys (\<lambda>x. x) xs))))))
        (sort (remdups (map fst (group_keys (\<lambda>x. x) xs)))))"
proof -
  have keys: "map (snd \<circ> fst) (size_of_groups (groupby (\<lambda>x. x) xs)) = map snd (group_keys (\<lambda>x. x) xs)"
    "map (fst \<circ> fst) (size_of_groups (groupby (\<lambda>x. x) xs)) = map fst (group_keys (\<lambda>x. x) xs)"
    by (simp_all add: size_of_groups_groupby comp_def)
  have counts: "(case map_of (size_of_groups (groupby (\<lambda>x. x) xs)) k of Some v \<Rightarrow> v | None \<Rightarrow> 0) =
      int (count_list xs k)" for k
    using group_size_or_zero [of "\<lambda>x. x" xs k] by (simp add: count_as_length)
  show ?thesis
    by (simp only: unstack_def Let_def keys counts)
qed

lemma reindexed_value:
  assumes "c \<notin> set cols \<Longrightarrow> f c = 0"
  shows "(case map_of (zip cols (map f cols)) c of Some v \<Rightarrow> v | None \<Rightarrow> 0) = (f c :: int)"
  using assms by (cases "c \<in> set cols") (simp_all add: map_of_zip_map)

lemma count_list_zero: "k \<notin> set xs \<Longrightarrow> count_list xs k = 0"
  by (induction xs) auto

lemma department_table:
  "snd (department_wise_pass_fail df) =
     ([''Pass'', ''Fail''],
      map (\<lambda>i. (i, [int (count_list (grouped_students df) (i, ''Pass'')),
                     int (count_list (grouped_students df) (i, ''Fail''))]))
        (sort (remdups (map fst (group_keys (\<lambda>x. x) (grouped_students df))))))"
proof -
  let ?G = "grouped_students df"
  let ?cols = "sort (remdups (map snd (group_keys (\<lambda>x. x) ?G)))"
  have absent: "int (count_list ?G (i, c)) = 0" if "c \<notin> set ?cols" for i c
  proof -
    from that have "(i, c) \<notin> set ?G"
      by (force simp: set_group_keys)
    then show ?thesis by (simp add: count_list_zero)
  qed
  have cell: "(case map_of (zip ?cols (map (\<lambda>c. int (count_list ?G (i, c))) ?cols)) c of
        Some v \<Rightarrow> v | None \<Rightarrow> 0) = int (count_list ?G (i, c))" for i c
    by (rule reindexed_value) (rule absent)
  have "snd (department_wise_pass_fail df) =
      reindex_columns (unstack (size_of_groups (groupby (\<lambda>x. x) ?G)) 0) [''Pass'', ''Fail''] 0"
    by (simp add: department_wise_pass_fail_def Let_def grouped_students_def)
  also have "\<dots> = ([''Pass'', ''Fail''],
      map (\<lambda>i. (i, [int (count_list ?G (i, ''Pass'')), int (count_list ?G (i, ''Fail''))]))
        (sort (remdups (map fst (group_keys (\<lambda>x. x) ?G)))))"
    unfolding unstack_sizes reindex_columns_def
    by (simp add: comp_def cell del: map_of_zip_is_Some)
  finally show ?thesis .
qed

text \<open>
  C5. The table of \<open>department_wise_pass_fail\<close> has the two columns \<open>Pass\<close> and
  \<open>Fail\<close>, in this order, and one row per department code among the grouped
  students. The row of a code holds the number of its students who passed and the number
  of its students who failed, which is 0 when no student of the code had that outcome.
\<close>

theorem department_wise_both_columns:
  "fst (snd (department_wise_pass_fail df)) = [''Pass'', ''Fail''] \<and>
   distinct (map fst (snd (snd (department_wise_pass_fail df)))) \<and>
   fst ` set (snd (snd (department_wise_pass_fail df))) = fst ` set (grouped_students df) \<and>
   (\<forall>(code, vs) \<in> set (snd (snd (department_wise_pass_fail df))).
      vs = [int (count_list (grouped_students df) (code, ''Pass'')),
            int (count_list (grouped_students df) (code, ''Fail''))] \<and>
      ((code, ''Pass'') \<notin> set (grouped_students df) \<longrightarrow> vs ! 0 = 0) \<and>
      ((code, ''Fail'') \<notin> set (grouped_students df) \<longrightarrow> vs ! 1 = 0))"
proof (intro conjI)
  show "fst (snd (department_wise_pass_fail df)) = [''Pass'', ''Fail'']"
    by (simp add: department_table)
  show "distinct (map fst (snd (snd (department_wise_pass_fail df))))"
    by (simp add: department_table comp_def)
  show "fst ` set (snd (snd (department_wise_pass_fail df))) = fst ` set (grouped_students df)"
    by (simp add: department_table image_image set_group_keys)
  show "\<forall>(code, vs) \<in> set (snd (snd (department_wise_pass_fail df))).
      vs = [int (count_list (grouped_students df) (code, ''Pass'')),
            int (count_list (grouped_students df) (code, ''Fail''))] \<and>
      ((code, ''Pass'') \<notin> set (grouped_students df) \<longrightarrow> vs ! 0 = 0) \<and>
      ((code, ''Fail'') \<notin> set (grouped_students df) \<longrightarrow> vs ! 1 = 0)"
    by (auto simp: department_table count_list_zero)
qed


text \<open>
  The one student of the department \<open>IT\<close> passed: the row is 1 and 0.
\<close>

theorem department_wise_both_columns_witness:
  "snd (department_wise_pass_fail all_passed) = ([''Pass'', ''Fail''], [(''IT'', [1, 0])]) \<and>
   grouped_students all_passed = [(''IT'', ''Pass'')] \<and>
   (''IT'', ''Fail'') \<notin> set (grouped_students all_passed)"
proof -
  have grouped: "grouped_students all_passed = [(''IT'', ''Pass'')]"
    by (simp add: grouped_students_def department_status_def all_passed_def result_row_def
        grade_passes_def groupby_def group_keys_def status_label_def merge_left_def
        map_dict_def DEPT_ABBREVIATIONS_def)
  have table: "snd (department_wise_pass_fail all_passed) =
      ([''Pass'', ''Fail''], [(''IT'', [1, 0])])"
    by (simp add: department_table grouped group_keys_def)
  from department_wise_both_columns [of all_passed] show ?thesis
    unfolding table grouped by simp
qed

section \<open>Departments without abbreviation\<close>

lemma dropna_append: "dropna (xs @ ys) = dropna xs @ dropna ys"
  by (induction xs) (simp_all split: option.splits)

lemma dropna_concat: "dropna (concat xss) = concat (map dropna xss)"
  by (induction xss) (simp_all add: dropna_append)

lemma unique_filter: "unique (filter P xs) = filter P (unique xs)"
proof (induction xs)
  case Nil
  then show ?case by simp
next
  case (Cons x xs)
  show ?case
  proof (cases "P x")
    case True
    with Cons show ?thesis
      by (simp add: conj_commute)
  next
    case False
    then have "filter (\<lambda>y. y \<noteq> x \<and> P y) (unique xs) = filter P (unique xs)"
      by (intro filter_cong) auto
    with False Cons show ?thesis by simp
  qed
qed

lemma group_keys_filter:
  "group_keys key (filter (\<lambda>x. key x \<noteq> r) xs) = filter (\<lambda>k. k \<noteq> r) (group_keys key xs)"
proof -
  have "map key (filter (\<lambda>x. key x \<noteq> r) xs) = filter (\<lambda>k. k \<noteq> r) (map key xs)"
    by (simp add: filter_map comp_def)
  then show ?thesis
    by (simp add: group_keys_def remdups_filter filter_sort)
qed

lemma concat_map_skip:
  "f r = [] \<Longrightarrow> concat (map f (filter (\<lambda>k. k \<noteq> r) ks)) = concat (map f ks)"
  by (induction ks) simp_all

text \<open>What one student contributes to the grouped rows.\<close>

lemma merged_rows_of_student:
  "dropna (map (\<lambda>(k, p, st, d). (map_dict DEPT_ABBREVIATIONS d, st))
      (case filter (\<lambda>(k', d). k' = k) right of
         [] \<Rightarrow> [(k, p, st, None)]
       | ms \<Rightarrow> map (\<lambda>(k', d). (k, p, st, Some d)) ms)) =
   dropna (map (\<lambda>(k', d). (DEPT_ABBREVIATIONS d, st)) (filter (\<lambda>(k', d). k' = k) right))"
  by (cases "filter (\<lambda>(k', d). k' = k) right")
    (simp_all add: map_dict_def split_def comp_def)

lemma grouped_students_eq:
  "grouped_students df =
     concat (map (\<lambda>k. dropna (map (\<lambda>(k', d). (DEPT_ABBREVIATIONS d,
                   status_label (list_all grade_passes (filter (\<lambda>r. REGNO r = k) (rows df)))))
               (filter (\<lambda>(k', d). k' = k) (unique (map (\<lambda>r. (REGNO r, DEPNAME r)) (rows df))))))
       (group_keys REGNO (rows df)))"
proof -
  have students: "map (\<lambda>(k, p). (k, p, status_label p))
      (map (\<lambda>(k, g). (k, list_all snd g))
        (groupby (REGNO \<circ> fst) (zip (rows df) (map grade_passes (rows df))))) =
      map (\<lambda>k. (k, list_all grade_passes (filter (\<lambda>r. REGNO r = k) (rows df)),
                 status_label (list_all grade_passes (filter (\<lambda>r. REGNO r = k) (rows df)))))
        (group_keys REGNO (rows df))"
    by (simp add: groupby_def zip_map_self group_keys_def comp_def all_of_tagged_group)
  show ?thesis
    unfolding grouped_students_def department_status_def Let_def students merge_left_def
    by (simp add: map_concat dropna_concat comp_def merged_rows_of_student)
qed

lemma dropna_all_missing: "\<forall>x \<in> set xs. fst x = None \<Longrightarrow> dropna xs = []"
  by (induction xs) simp_all

lemma set_dropna: "set (dropna xs) = {(k, v). (Some k, v) \<in> set xs}"
  by (induction xs) (auto split: option.splits)

lemma grouped_students_without:
  assumes "\<forall>row \<in> set (rows df). REGNO row = r \<longrightarrow> DEPT_ABBREVIATIONS (DEPNAME row) = None"
  shows "grouped_students (df\<lparr>rows := filter (\<lambda>row. REGNO row \<noteq> r) (rows df)\<rparr>) =
     grouped_students df"
proof -
  let ?rs = "rows df"
  let ?rs' = "filter (\<lambda>row. REGNO row \<noteq> r) (rows df)"
  let ?pairs = "\<lambda>rs. unique (map (\<lambda>r. (REGNO r, DEPNAME r)) rs)"
  let ?part = "\<lambda>rs k. dropna (map (\<lambda>(k', d). (DEPT_ABBREVIATIONS d,
      status_label (list_all grade_passes (filter (\<lambda>r. REGNO r = k) rs))))
      (filter (\<lambda>(k', d). k' = k) (?pairs rs)))"
  have pairs: "?pairs ?rs' = filter (\<lambda>(k, d). k \<noteq> r) (?pairs ?rs)"
  proof -
    have "map (\<lambda>r. (REGNO r, DEPNAME r)) ?rs' =
        filter (\<lambda>(k, d). k \<noteq> r) (map (\<lambda>r. (REGNO r, DEPNAME r)) ?rs)"
      by (simp add: filter_map comp_def)
    then show ?thesis by (simp add: unique_filter)
  qed
  have same: "?part ?rs' k = ?part ?rs k" if "k \<noteq> r" for k
  proof -
    have "filter (\<lambda>r. REGNO r = k) ?rs' = filter (\<lambda>r. REGNO r = k) ?rs"
      using that by (auto intro: filter_cong)
    moreover have "filter (\<lambda>(k', d). k' = k) (?pairs ?rs') =
        filter (\<lambda>(k', d). k' = k) (?pairs ?rs)"
      unfolding pairs using that by (auto intro: filter_cong)
    ultimately show ?thesis by simp
  qed
  have none: "?part ?rs r = []"
  proof (rule dropna_all_missing, rule ballI)
    fix x
    assume "x \<in> set (map (\<lambda>(k', d). (DEPT_ABBREVIATIONS d,
        status_label (list_all grade_passes (filter (\<lambda>row. REGNO row = r) ?rs))))
        (filter (\<lambda>(k', d). k' = r) (?pairs ?rs)))"
    then obtain d where "(r, d) \<in> set (?pairs ?rs)" and "fst x = DEPT_ABBREVIATIONS d"
      by auto
    with assms show "fst x = None"
      by (auto simp: set_unique)
  qed
  have "grouped_students (df\<lparr>rows := ?rs'\<rparr>) =
      concat (map (?part ?rs') (filter (\<lambda>k. k \<noteq> r) (group_keys REGNO ?rs)))"
    by (simp add: grouped_students_eq group_keys_filter)
  also have "\<dots> = concat (map (?part ?rs) (filter (\<lambda>k. k \<noteq> r) (group_keys REGNO ?rs)))"
    using same by (intro arg_cong [where f = concat] map_cong) auto
  also have "\<dots> = concat (map (?part ?rs) (group_keys REGNO ?rs))"
    using none by (rule concat_map_skip)
  also have "\<dots> = grouped_students df"
    by (simp add: grouped_students_eq)
  finally show ?thesis .
qed

lemma grouped_students_mapped:
  assumes "(code, st) \<in> set (grouped_students df)"
  shows "\<exists>row \<in> set (rows df). DEPT_ABBREVIATIONS (DEPNAME row) = Some code"
  using assms by (auto simp: grouped_students_eq set_dropna set_unique)

text \<open>
  C10. A student all of whose rows name a department that \<open>DEPT_ABBREVIATIONS\<close>
  does not hold is left out of the table of \<open>department_wise_pass_fail\<close>: the table is
  the one computed without the rows of the student, and every department code of the
  table is the abbreviation of the department of a row of another student. The function
  raises nothing: it returns a table for every frame.
\<close>

theorem unmapped_department_excluded:
  assumes "\<forall>row \<in> set (rows df). REGNO row = r \<longrightarrow> DEPT_ABBREVIATIONS (DEPNAME row) = None"
  shows "snd (department_wise_pass_fail (df\<lparr>rows := filter (\<lambda>row. REGNO row \<noteq> r) (rows df)\<rparr>)) =
       snd (department_wise_pass_fail df) \<and>
     (\<forall>(code, vs) \<in> set (snd (snd (department_wise_pass_fail df))).
        \<exists>row \<in> set (rows df). REGNO row \<noteq> r \<and> DEPT_ABBREVIATIONS (DEPNAME row) = Some code)"
proof
  show "snd (department_wise_pass_fail (df\<lparr>rows := filter (\<lambda>row. REGNO row \<noteq> r) (rows df)\<rparr>)) =
      snd (department_wise_pass_fail df)"
    by (simp add: department_table grouped_students_without [OF assms])
  show "\<forall>(code, vs) \<in> set (snd (snd (department_wise_pass_fail df))).
      \<exists>row \<in> set (rows df). REGNO row \<noteq> r \<and> DEPT_ABBREVIATIONS (DEPNAME row) = Some code"
  proof (clarify)
    fix code vs
    assume "(code, vs) \<in> set (snd (snd (department_wise_pass_fail df)))"
    then have "code \<in> fst ` set (grouped_students df)"
      by (auto simp: department_table set_group_keys)
    then obtain st where "(code, st) \<in> set (grouped_students df)"
      by auto
    then obtain row where "row \<in> set (rows df)" "DEPT_ABBREVIATIONS (DEPNAME row) = Some code"
      using grouped_students_mapped by blast
    with assms show "\<exists>row \<in> set (rows df). REGNO row \<noteq> r \<and>
        DEPT_ABBREVIATIONS (DEPNAME row) = Some code"
      by force
  qed
qed

text \<open>
  Student 2 of the sample is of a department without abbreviation.
\<close>

theorem unmapped_department_excluded_witness:
  "DEPT_ABBREVIATIONS ''MECHANICAL ENGINEERING'' = None \<and>
   snd (department_wise_pass_fail sample) = ([''Pass'', ''Fail''], [(''IT'', [0, 1])]) \<and>
   snd (department_wise_pass_fail (sample\<lparr>rows := filter (\<lambda>row. REGNO row \<noteq> 2) (rows sample)\<rparr>)) =
     snd (department_wise_pass_fail sample)"
proof -
  have unmapped: "\<forall>row \<in> set (rows sample). REGNO row = 2 \<longrightarrow>
      DEPT_ABBREVIATIONS (DEPNAME row) = None"
    by (simp add: sample_def result_row_def DEPT_ABBREVIATIONS_def)
  have grouped: "grouped_students sample = [(''IT'', ''Fail'')]"
    by (simp add: grouped_students_def department_status_def sample_def result_row_def
        grade_passes_def groupby_def group_keys_def status_label_def merge_left_def
        map_dict_def DEPT_ABBREVIATIONS_def)
  have table: "snd (department_wise_pass_fail sample) = ([''Pass'', ''Fail''], [(''IT'', [0, 1])])"
    by (simp add: department_table grouped group_keys_def)
  have "DEPT_ABBREVIATIONS ''MECHANICAL ENGINEERING'' = None"
    by (simp add: DEPT_ABBREVIATIONS_def)
  with unmapped_department_excluded [OF unmapped] table show ?thesis
    by simp
qed

section \<open>Pass/fail counts per subject when both outcomes occur\<close>

lemma sorted_keys_of_keys:
  "sort (remdups (map fst (group_keys (\<lambda>x. (f x, g x)) xs))) = group_keys f xs"
proof (rule sorted_distinct_set_unique)
  show "set (sort (remdups (map fst (group_keys (\<lambda>x. (f x, g x)) xs)))) = set (group_keys f xs)"
    by (simp add: set_group_keys image_image)
qed (simp_all add: group_keys_def)

lemma both_truth_values:
  assumes "False \<in> set bs" and "True \<in> set bs"
  shows "sort (remdups bs) = [False, True]"
proof (rule sorted_distinct_set_unique)
  show "set (sort (remdups bs)) = set [False, True]"
    using assms by auto
qed simp_all

text \<open>
  When the subset has a failed row and a passed row, \<open>subject_wise_pass_fail\<close>
  returns one row per subject code with the numbers of its failed and of its passed rows,
  which add up to the number of its rows.
\<close>

lemma subject_wise_pass_fail_both_outcomes:
  assumes "\<exists>r \<in> set (rows df). GRADE r = ''U''" and "\<exists>r \<in> set (rows df). GRADE r \<noteq> ''U''"
  shows "snd (subject_wise_pass_fail df) =
     Inr (map (\<lambda>s. (s, int (length (filter (\<lambda>r. GRADE r = ''U'') (rows_of_subject df s))),
                        int (length (filter (\<lambda>r. GRADE r \<noteq> ''U'') (rows_of_subject df s)))))
            (group_keys SUBCODE (rows df)))"
proof -
  let ?tagged = "map (\<lambda>r. (r, grade_passes r)) (rows df)"
  let ?key = "\<lambda>x. (SUBCODE (fst x), snd x)"
  let ?s = "size_of_groups (groupby ?key ?tagged)"
  have cols: "sort (remdups (map (snd \<circ> fst) ?s)) = [False, True]"
  proof (rule both_truth_values)
    show "False \<in> set (map (snd \<circ> fst) ?s)"
      using assms(1) by (force simp: size_of_groups_groupby set_group_keys grade_passes_def)
    show "True \<in> set (map (snd \<circ> fst) ?s)"
      using assms(2) by (force simp: size_of_groups_groupby set_group_keys grade_passes_def)
  qed
  have idx: "sort (remdups (map (fst \<circ> fst) ?s)) = group_keys SUBCODE (rows df)"
  proof -
    have "map (fst \<circ> fst) ?s = map fst (group_keys (\<lambda>x. (SUBCODE (fst x), snd x)) ?tagged)"
      by (simp add: size_of_groups_groupby comp_def)
    also have "sort (remdups \<dots>) = group_keys (\<lambda>x. SUBCODE (fst x)) ?tagged"
      by (rule sorted_keys_of_keys)
    also have "\<dots> = group_keys SUBCODE (rows df)"
      by (simp add: group_keys_def comp_def)
    finally show ?thesis .
  qed
  have count: "(case map_of ?s (s, c) of Some v \<Rightarrow> v | None \<Rightarrow> 0) =
      int (length (filter (\<lambda>r. grade_passes r = c) (rows_of_subject df s)))" for s c
    by (simp add: group_size_or_zero rows_of_subject_def comp_def)
  have "unstack ?s 0 =
      ([False, True],
       map (\<lambda>i. (i, [int (length (filter (\<lambda>r. grade_passes r = False) (rows_of_subject df i))),
                      int (length (filter (\<lambda>r. grade_passes r = True) (rows_of_subject df i)))]))
         (group_keys SUBCODE (rows df)))"
    unfolding unstack_def Let_def cols idx by (simp add: count)
  then show ?thesis
    by (simp add: subject_wise_pass_fail_def Let_def zip_map_self split_def comp_def
        grade_passes_def)
qed

lemma subject_wise_pass_fail_total:
  assumes "\<exists>r \<in> set (rows df). GRADE r = ''U''" and "\<exists>r \<in> set (rows df). GRADE r \<noteq> ''U''"
  shows "\<exists>t. snd (subject_wise_pass_fail df) = Inr t \<and>
     map fst t = group_keys SUBCODE (rows df) \<and>
     (\<forall>(s, failed, passed) \<in> set t. failed + passed = int (length (rows_of_subject df s)))"
proof -
  have "length (filter (\<lambda>r. GRADE r = ''U'') rs) + length (filter (\<lambda>r. GRADE r \<noteq> ''U'') rs) =
      length rs" for rs :: "row list"
    using sum_length_filter_compl [of "\<lambda>r. GRADE r = ''U''" rs] by simp
  then have "int (length (filter (\<lambda>r. GRADE r = ''U'') rs)) +
      int (length (filter (\<lambda>r. GRADE r \<noteq> ''U'') rs)) = int (length rs)" for rs :: "row list"
    by (metis of_nat_add)
  then show ?thesis
    by (auto simp: subject_wise_pass_fail_both_outcomes [OF assms] comp_def)
qed

end
